theory Spec2Isabelle
  imports Complex_Main
begin

section \<open>Data model (src/unnamed/part_000, the types module)\<close>

text \<open>
  \<^verbatim>\<open>enum CameraMode { Colour = 0, NoIR = 1 }\<close>
\<close>

datatype CameraMode = Colour | NoIR

text \<open>
  A JavaScript \<^verbatim>\<open>Date\<close> holds either an integral number of milliseconds since the
  epoch or NaN (an invalid date).
\<close>

datatype date = Invalid_Date | Instant int

text \<open>
  \<^verbatim>\<open>interface Update { fires: Date; state: CameraMode }\<close>
\<close>

record Update =
  fires :: date
  state :: CameraMode

text \<open>
  \<^verbatim>\<open>interface Config { latitude: number; longitude: number }\<close> is a compile-time
  annotation only. At run time the configuration is whatever \<^verbatim>\<open>JSON.parse\<close>
  returned, so it is modelled as a JSON value; numbers are carried as reals (the program
  never computes with them, it only hands them to the sunrise library).
\<close>

datatype json =
    JNull
  | JBool bool
  | JNum real
  | JStr string
  | JArr "json list"
  | JObj "(string \<times> json) list"

text \<open>A JavaScript value read from a property: \<open>None\<close> is \<^verbatim>\<open>undefined\<close>.\<close>

type_synonym jsval = "json option"

text \<open>Exceptions that the modelled code can meet.\<close>

datatype exn = TypeError | SyntaxError | SystemError string

text \<open>
  Property access \<^verbatim>\<open>config.latitude\<close>: on \<^verbatim>\<open>null\<close> it throws a TypeError, on an
  object it yields the member or \<^verbatim>\<open>undefined\<close>, on any other JSON value (which has no
  such property) it yields \<^verbatim>\<open>undefined\<close>.
\<close>

fun property :: "json \<Rightarrow> string \<Rightarrow> exn + jsval" where
  "property JNull k = Inl TypeError"
| "property (JObj kvs) k = Inr (map_of kvs k)"
| "property v k = Inr None"

section \<open>Dates and numbers\<close>

text \<open>
  The relational operators on dates compare the time values; every comparison with NaN
  is false.
\<close>

fun date_less :: "date \<Rightarrow> date \<Rightarrow> bool" where
  "date_less (Instant a) (Instant b) = (a < b)"
| "date_less a b = False"

fun date_greater :: "date \<Rightarrow> date \<Rightarrow> bool" where
  "date_greater (Instant a) (Instant b) = (a > b)"
| "date_greater a b = False"

text \<open>\<^verbatim>\<open>getTime()\<close> and number arithmetic, with \<open>None\<close> for NaN.\<close>

fun getTime :: "date \<Rightarrow> int option" where
  "getTime Invalid_Date = None"
| "getTime (Instant t) = Some t"

fun num_minus :: "int option \<Rightarrow> int option \<Rightarrow> int option" where
  "num_minus (Some a) (Some b) = Some (a - b)"
| "num_minus a b = None"

fun num_plus :: "int option \<Rightarrow> int option \<Rightarrow> int option" where
  "num_plus (Some a) (Some b) = Some (a + b)"
| "num_plus a b = None"

section \<open>The environment of the process\<close>

text \<open>
  Everything the program imports or reads from its host is a parameter:
  \<^item> \<open>getSunrise\<close>, \<open>getSunset\<close>: the functions of the sunrise-sunset-js package, given
    latitude, longitude and the instant whose calendar day is meant (the package uses the
    current instant when the date argument is omitted);
  \<^item> \<open>setDateNext\<close>: \<^verbatim>\<open>d.setDate(d.getDate() + 1)\<close> in the host's time zone, on
    millisecond time values;
  \<^item> \<open>readFileSync\<close>, \<open>JSON_parse\<close>: the file system and the JSON parser, which either
    return or throw;
  \<^item> \<open>process_env\<close>, \<open>argv\<close>: the environment variables and the command line.
\<close>

record env =
  getSunrise :: "jsval \<Rightarrow> jsval \<Rightarrow> int \<Rightarrow> date"
  getSunset :: "jsval \<Rightarrow> jsval \<Rightarrow> int \<Rightarrow> date"
  setDateNext :: "int \<Rightarrow> int"
  readFileSync :: "string \<Rightarrow> exn + string"
  JSON_parse :: "string \<Rightarrow> exn + json"
  process_env :: "string \<Rightarrow> string option"
  argv :: "string list"

section \<open>Effects\<close>

datatype pin = GPIO4 | GPIO17

datatype level = LOW | HIGH

text \<open>The lines written by \<^verbatim>\<open>console.log\<close>, by shape.\<close>

datatype message =
    Switching
  | Switched_to CameraMode
  | Starting_up_with_NoIR
  | Starting_up_with_colour
  | Firing_update CameraMode date
  | In_ms "int option"

datatype event =
    New_I2C
  | New_DigitalOutput pin
  | I2C_writeSync nat nat nat
  | Gpio_write pin level
  | Console_log message
  | SetTimeout "int option"

text \<open>
  The state of the process: the wall clock in milliseconds, the effects performed so far
  in order, and the timers that are armed, each with the instant at which it was armed,
  its requested delay and the \<^verbatim>\<open>config\<close> and \<^verbatim>\<open>nextMode\<close> its callback has
  captured. Running code takes no time: the clock only moves while the process waits for
  a timer.
\<close>

record world =
  clock :: int
  trace :: "event list"
  timers :: "(int \<times> int option \<times> json \<times> Update) list"

definition emit :: "event list \<Rightarrow> world \<Rightarrow> world" where
  "emit es w = w\<lparr>trace := trace w @ es\<rparr>"

section \<open>loadConfig (src/src/index.ts, lines 9 and 20-30)\<close>

text \<open>\<^verbatim>\<open>process.env.CONFIG || '/boot/camera.json'\<close>: the empty string is falsy.\<close>

definition CONFIG_PATH :: "env \<Rightarrow> string" where
  "CONFIG_PATH e =
     (case process_env e ''CONFIG'' of
        None \<Rightarrow> ''/boot/camera.json''
      | Some p \<Rightarrow> if p = [] then ''/boot/camera.json'' else p)"

text \<open>The object literal of the \<^verbatim>\<open>catch\<close> branch.\<close>

definition london :: json where
  "london = JObj [(''latitude'', JNum 51.5074), (''longitude'', JNum 0.1278)]"

text \<open>\<^verbatim>\<open>try { body } catch (e) { handler }\<close>\<close>

definition try_catch :: "(exn + 'a) \<Rightarrow> (exn \<Rightarrow> exn + 'a) \<Rightarrow> exn + 'a" where
  "try_catch body handler = (case body of Inl e \<Rightarrow> handler e | Inr v \<Rightarrow> Inr v)"

definition loadConfig :: "env \<Rightarrow> exn + json" where
  "loadConfig e =
     try_catch
       (case readFileSync e (CONFIG_PATH e) of
          Inl x \<Rightarrow> Inl x
        | Inr config \<Rightarrow> JSON_parse e config)
       (\<lambda>x. Inr london)"

section \<open>nextUpdate (src/src/index.ts, lines 35-66)\<close>

text \<open>
  The variable \<^verbatim>\<open>nextSunrise\<close> after lines 41 and 45-46, and \<^verbatim>\<open>nextSunset\<close> after
  lines 42 and 47-48: today's instant, replaced by tomorrow's when it compares less than
  \<^verbatim>\<open>now\<close>.
\<close>

definition nextSunrise :: "env \<Rightarrow> jsval \<Rightarrow> jsval \<Rightarrow> int \<Rightarrow> date" where
  "nextSunrise e lat lon now =
     (if date_less (getSunrise e lat lon now) (Instant now)
      then getSunrise e lat lon (setDateNext e now)
      else getSunrise e lat lon now)"

definition nextSunset :: "env \<Rightarrow> jsval \<Rightarrow> jsval \<Rightarrow> int \<Rightarrow> date" where
  "nextSunset e lat lon now =
     (if date_less (getSunset e lat lon now) (Instant now)
      then getSunset e lat lon (setDateNext e now)
      else getSunset e lat lon now)"

text \<open>Lines 50-65, on the two candidates.\<close>

definition pick :: "date \<Rightarrow> date \<Rightarrow> int \<Rightarrow> Update" where
  "pick sunrise sunset now =
     (let sunriseNext = date_less sunrise sunset;
          sunriseNext =
            (if sunriseNext \<and> date_greater (Instant now) sunrise then False
             else if \<not> sunriseNext \<and> date_greater (Instant now) sunset then True
             else sunriseNext)
      in if sunriseNext then \<lparr>fires = sunrise, state = Colour\<rparr>
         else \<lparr>fires = sunset, state = NoIR\<rparr>)"

text \<open>
  The whole function. \<^verbatim>\<open>now\<close>, the base of \<^verbatim>\<open>tomorrow\<close> and the date the library
  assumes when none is given are all \<^verbatim>\<open>new Date()\<close> within one call, here the one
  instant \<open>clock w\<close>. Reading a coordinate of the configuration may throw.
\<close>

definition nextUpdate :: "env \<Rightarrow> json \<Rightarrow> world \<Rightarrow> exn + Update" where
  "nextUpdate e config w =
     (case property config ''latitude'' of
        Inl x \<Rightarrow> Inl x
      | Inr lat \<Rightarrow>
          (case property config ''longitude'' of
             Inl x \<Rightarrow> Inl x
           | Inr lon \<Rightarrow>
               (let now = clock w
                in Inr (pick (nextSunrise e lat lon now) (nextSunset e lat lon now) now))))"

section \<open>update (lines 71-83)\<close>

definition update :: "CameraMode \<Rightarrow> world \<Rightarrow> world" where
  "update mode w =
     emit
       ([Console_log Switching]
        @ (if mode = Colour
           then [I2C_writeSync 0x70 0x0 0x1, Gpio_write GPIO4 LOW]
           else [I2C_writeSync 0x70 0x0 0x2, Gpio_write GPIO4 HIGH])
        @ [Console_log (Switched_to mode)])
       w"

section \<open>setup (lines 92-118), here \<open>setup_camera\<close>\<close>

definition setup_camera :: "env \<Rightarrow> json \<Rightarrow> world \<Rightarrow> exn + (world \<times> Update)" where
  "setup_camera e config w =
     (let w1 = emit [New_I2C, New_DigitalOutput GPIO4, New_DigitalOutput GPIO17,
                     I2C_writeSync 0x70 0x0 0x1, Gpio_write GPIO17 LOW, Gpio_write GPIO4 LOW] w
      in case nextUpdate e config w1 of
           Inl x \<Rightarrow> Inl x
         | Inr next \<Rightarrow>
             (if state next = Colour
              then Inr (update NoIR (emit [Console_log Starting_up_with_NoIR] w1), next)
              else Inr (update Colour (emit [Console_log Starting_up_with_colour] w1), next)))"

section \<open>nextLoop (lines 120-133)\<close>

text \<open>
  \<^verbatim>\<open>nextLoop\<close> logs and arms one timer; the arrow function given to \<^verbatim>\<open>setTimeout\<close>
  is \<open>timeoutCallback\<close>, which runs in the world as it is when the timer fires.
\<close>

definition nextLoop :: "json \<Rightarrow> Update \<Rightarrow> world \<Rightarrow> world" where
  "nextLoop config nextMode w =
     (let now = Some (clock w);
          delay = num_plus (num_minus (getTime (fires nextMode)) now) (Some 1000);
          w1 = emit [Console_log (Firing_update (state nextMode) (fires nextMode)),
                     Console_log (In_ms (num_minus (getTime (fires nextMode)) now)),
                     SetTimeout delay] w
      in w1\<lparr>timers := timers w1 @ [(clock w, delay, config, nextMode)]\<rparr>)"

definition timeoutCallback :: "env \<Rightarrow> json \<Rightarrow> Update \<Rightarrow> world \<Rightarrow> exn + world" where
  "timeoutCallback e config nextMode w =
     (let w1 = update (state nextMode) w
      in case nextUpdate e config w1 of
           Inl x \<Rightarrow> Inl x
         | Inr nextMode' \<Rightarrow> Inr (nextLoop config nextMode' w1))"

text \<open>
  The host's \<^verbatim>\<open>setTimeout\<close>: the callback runs once the requested number of
  milliseconds has passed; a delay that is NaN, below 1 or above 2147483647 is taken
  as 1.
\<close>

definition timeout_ms :: "int option \<Rightarrow> int" where
  "timeout_ms delay =
     (case delay of
        None \<Rightarrow> 1
      | Some d \<Rightarrow> if d < 1 \<or> 2147483647 < d then 1 else d)"

text \<open>
  The event loop taking the first armed timer: the clock moves to the instant the timer
  is due, or later by \<open>late\<close> milliseconds, the timer is removed and its callback runs.
  With no timer armed nothing happens (the process ends).
\<close>

definition fireTimer :: "env \<Rightarrow> nat \<Rightarrow> world \<Rightarrow> exn + world" where
  "fireTimer e late w =
     (case timers w of
        [] \<Rightarrow> Inr w
      | (armed_at, delay, config, nextMode) # rest \<Rightarrow>
          timeoutCallback e config nextMode
            (w\<lparr>clock := max (clock w) (armed_at + timeout_ms delay) + int late,
               timers := rest\<rparr>))"

section \<open>main (lines 141-162)\<close>

text \<open>\<^verbatim>\<open>Array.prototype.indexOf\<close> (\<open>-1\<close> when absent) and indexing (\<^verbatim>\<open>undefined\<close> out of range).\<close>

fun indexOf :: "string list \<Rightarrow> string \<Rightarrow> int" where
  "indexOf [] x = - 1"
| "indexOf (y # ys) x =
     (if y = x then 0 else (let i = indexOf ys x in if i < 0 then - 1 else i + 1))"

definition element :: "string list \<Rightarrow> int \<Rightarrow> string option" where
  "element xs i = (if 0 \<le> i \<and> nat i < length xs then Some (xs ! nat i) else None)"

definition main :: "env \<Rightarrow> world \<Rightarrow> exn + world" where
  "main e w =
     (case loadConfig e of
        Inl x \<Rightarrow> Inl x
      | Inr config \<Rightarrow>
          (case setup_camera e config w of
             Inl x \<Rightarrow> Inl x
           | Inr (w1, nextMode) \<Rightarrow>
               (if ''--test'' \<in> set (argv e)
                then (let index = indexOf (argv e) ''--test'';
                          mode = element (argv e) (index + 1)
                      in if mode = Some ''0'' then Inr (update Colour w1)
                         else if mode = Some ''1'' then Inr (update NoIR w1)
                         else Inr w1)
                else Inr (nextLoop config nextMode w1))))"

text \<open>
  A run of the process: \<open>main\<close>, then the armed timer firing, once for each entry of
  the list and that many milliseconds late. An uncaught exception ends the run.
\<close>

fun fireTimers :: "env \<Rightarrow> nat list \<Rightarrow> world \<Rightarrow> exn + world" where
  "fireTimers e [] w = Inr w"
| "fireTimers e (late # lates) w =
     (case fireTimer e late w of Inl x \<Rightarrow> Inl x | Inr w' \<Rightarrow> fireTimers e lates w')"

definition run :: "env \<Rightarrow> nat list \<Rightarrow> world \<Rightarrow> exn + world" where
  "run e lates w = (case main e w of Inl x \<Rightarrow> Inl x | Inr w' \<Rightarrow> fireTimers e lates w')"

section \<open>Observations on a trace\<close>

text \<open>
  The camera modes applied through \<open>update\<close>, in order (each call ends with its
  \<^verbatim>\<open>Switched to ... camera\<close> line), and the delays of the timers armed.
\<close>

fun applied :: "event list \<Rightarrow> CameraMode list" where
  "applied [] = []"
| "applied (Console_log (Switched_to m) # es) = m # applied es"
| "applied (ev # es) = applied es"

fun armed :: "event list \<Rightarrow> int option list" where
  "armed [] = []"
| "armed (SetTimeout d # es) = d # armed es"
| "armed (ev # es) = armed es"

section \<open>Concrete environments\<close>

text \<open>
  A host in UTC whose sunrise library answers 06:30 and 18:00 on the calendar day of the
  instant it is given, whatever the coordinates. No configuration file exists, the parser
  accepts the single text \<^verbatim>\<open>null\<close>, and the command line carries no option.
\<close>

definition day_ms :: int where
  "day_ms = 86400000"

definition midnight :: "int \<Rightarrow> int" where
  "midnight t = (t div day_ms) * day_ms"

definition env_utc :: env where
  "env_utc =
     \<lparr>getSunrise = (\<lambda>lat lon t. Instant (midnight t + 23400000)),
      getSunset = (\<lambda>lat lon t. Instant (midnight t + 64800000)),
      setDateNext = (\<lambda>t. t + day_ms),
      readFileSync = (\<lambda>path. Inl (SystemError ''ENOENT'')),
      JSON_parse = (\<lambda>s. if s = ''null'' then Inr JNull else Inl SyntaxError),
      process_env = (\<lambda>name. None),
      argv = [''node'', ''index.js'']\<rparr>"

text \<open>
  The same host at the onset of polar night: the sun rises and sets on day 0, and from
  day 1 on the library has no instant to return.
\<close>

definition env_polar :: env where
  "env_polar =
     env_utc
       \<lparr>getSunrise := (\<lambda>lat lon t. if t < day_ms then Instant 23400000 else Invalid_Date),
        getSunset := (\<lambda>lat lon t. if t < day_ms then Instant 64800000 else Invalid_Date)\<rparr>"

text \<open>
  A host in Los Angeles, seven hours behind UTC, whose sunrise library places each event
  on the UTC calendar day that carries the number of the local day: sunrise at 13:00 UTC
  (06:00 local time), sunset at 02:00 UTC, which is 19:00 local time of the evening
  before. Today's sunset is then always past, and tomorrow's is this evening's.
\<close>

definition env_la :: env where
  "env_la =
     env_utc
       \<lparr>getSunrise := (\<lambda>lat lon t. Instant (midnight (t - 25200000) + 46800000)),
        getSunset := (\<lambda>lat lon t. Instant (midnight (t - 25200000) + 7200000))\<rparr>"

text \<open>A sunrise library that answers the same two instants for every day.\<close>

definition env_stuck :: env where
  "env_stuck =
     env_utc
       \<lparr>getSunrise := (\<lambda>lat lon t. Instant 100),
        getSunset := (\<lambda>lat lon t. Instant 200)\<rparr>"

text \<open>A host whose configuration file holds the text \<^verbatim>\<open>null\<close>, and one whose file is not JSON.\<close>

definition env_null :: env where
  "env_null = env_utc\<lparr>readFileSync := (\<lambda>path. Inr ''null'')\<rparr>"

definition env_garbled :: env where
  "env_garbled = env_utc\<lparr>readFileSync := (\<lambda>path. Inr ''latitude=51'')\<rparr>"

text \<open>A process that has just started at wall-clock time \<open>t\<close>.\<close>

definition started_at :: "int \<Rightarrow> world" where
  "started_at t = \<lparr>clock = t, trace = [], timers = []\<rparr>"

section \<open>Basic facts\<close>

lemma london_latitude: "property london ''latitude'' = Inr (Some (JNum 51.5074))"
  by (simp add: london_def)

lemma london_longitude: "property london ''longitude'' = Inr (Some (JNum 0.1278))"
  by (simp add: london_def)

lemma applied_append: "applied (xs @ ys) = applied xs @ applied ys"
  by (induction xs rule: applied.induct) simp_all

lemma armed_append: "armed (xs @ ys) = armed xs @ armed ys"
  by (induction xs rule: armed.induct) simp_all

lemma update_clock: "clock (update m w) = clock w"
  by (simp add: update_def emit_def)

lemma update_timers: "timers (update m w) = timers w"
  by (simp add: update_def emit_def)



lemma nextUpdate_emit: "nextUpdate e config (emit es w) = nextUpdate e config w"
  by (simp add: nextUpdate_def emit_def split: sum.split)

lemma nextUpdate_update: "nextUpdate e config (update m w) = nextUpdate e config w"
  by (simp add: update_def nextUpdate_emit)

text \<open>Once both coordinates can be read, the planner is \<open>pick\<close> on the two candidates.\<close>

lemma nextUpdate_known:
  assumes "property config ''latitude'' = Inr lat"
    and "property config ''longitude'' = Inr lon"
  shows "nextUpdate e config w =
           Inr (pick (nextSunrise e lat lon (clock w)) (nextSunset e lat lon (clock w)) (clock w))"
  using assms by (simp add: nextUpdate_def Let_def)

lemma env_utc_0600:
  "nextUpdate env_utc london (started_at 21600000)
     = Inr \<lparr>fires = Instant 23400000, state = Colour\<rparr>"
  by (simp add: nextUpdate_known [OF london_latitude london_longitude] started_at_def
      nextSunrise_def nextSunset_def pick_def env_utc_def midnight_def day_ms_def)

lemma loadConfig_env_utc: "loadConfig env_utc = Inr london"
  by (simp add: loadConfig_def try_catch_def env_utc_def)

section \<open>Loading the configuration\<close>

text \<open>
  Claim C8. \<open>loadConfig\<close> never raises to its caller: it always returns a value, and when
  reading the file throws, or the file is read and parsing it throws, the value is the
  fixed default location with latitude 51.5074 and longitude 0.1278.
\<close>

theorem loadConfig_never_raises:
  "(\<exists>config. loadConfig e = Inr config)
   \<and> (\<forall>x. readFileSync e (CONFIG_PATH e) = Inl x \<longrightarrow>
          loadConfig e = Inr (JObj [(''latitude'', JNum 51.5074), (''longitude'', JNum 0.1278)]))
   \<and> (\<forall>s x. readFileSync e (CONFIG_PATH e) = Inr s \<and> JSON_parse e s = Inl x \<longrightarrow>
          loadConfig e = Inr (JObj [(''latitude'', JNum 51.5074), (''longitude'', JNum 0.1278)]))"
  by (auto simp add: loadConfig_def try_catch_def london_def split: sum.splits)

text \<open>A missing file, and a file whose content is not JSON.\<close>

theorem loadConfig_never_raises_witness:
  "readFileSync env_utc (CONFIG_PATH env_utc) = Inl (SystemError ''ENOENT'')
   \<and> loadConfig env_utc = Inr (JObj [(''latitude'', JNum 51.5074), (''longitude'', JNum 0.1278)])
   \<and> readFileSync env_garbled (CONFIG_PATH env_garbled) = Inr ''latitude=51''
   \<and> JSON_parse env_garbled ''latitude=51'' = Inl SyntaxError
   \<and> loadConfig env_garbled = Inr (JObj [(''latitude'', JNum 51.5074), (''longitude'', JNum 0.1278)])"
proof -
  have missing: "readFileSync env_utc (CONFIG_PATH env_utc) = Inl (SystemError ''ENOENT'')"
    by (simp add: env_utc_def)
  have content: "readFileSync env_garbled (CONFIG_PATH env_garbled) = Inr ''latitude=51''"
    by (simp add: env_garbled_def)
  have garbled: "JSON_parse env_garbled ''latitude=51'' = Inl SyntaxError"
    by (simp add: env_garbled_def env_utc_def)
  from missing content garbled
    loadConfig_never_raises [of env_utc] loadConfig_never_raises [of env_garbled]
  show ?thesis by blast
qed

text \<open>
  Claim C10. \<open>loadConfig\<close> validates nothing: whenever the file is read and its content
  parses, the parsed value is returned as it is, whatever JSON value it is (an object
  without coordinates, a string, \<^verbatim>\<open>null\<close>); the default location stands in only when
  reading or parsing throws.
\<close>

theorem loadConfig_returns_parsed_value:
  assumes "readFileSync e (CONFIG_PATH e) = Inr s"
    and "JSON_parse e s = Inr v"
  shows "loadConfig e = Inr v"
  using assms by (simp add: loadConfig_def try_catch_def)

text \<open>A configuration file holding \<^verbatim>\<open>null\<close> yields the configuration \<^verbatim>\<open>null\<close>.\<close>

theorem loadConfig_returns_parsed_value_witness:
  "readFileSync env_null (CONFIG_PATH env_null) = Inr ''null''
   \<and> JSON_parse env_null ''null'' = Inr JNull
   \<and> loadConfig env_null = Inr JNull"
proof -
  have r: "readFileSync env_null (CONFIG_PATH env_null) = Inr ''null''"
    by (simp add: env_null_def)
  have p: "JSON_parse env_null ''null'' = Inr JNull"
    by (simp add: env_null_def env_utc_def)
  from r p loadConfig_returns_parsed_value [OF r p] show ?thesis by simp
qed

text \<open>
  What the unvalidated value then does to the core: with the configuration \<^verbatim>\<open>null\<close>
  the first read of a coordinate throws, and the process ends in the startup sequence.
\<close>

lemma main_null_config: "main env_null w = Inl TypeError"
  by (simp add: main_def loadConfig_def try_catch_def setup_camera_def nextUpdate_def
      env_null_def env_utc_def)

section \<open>The transition planner\<close>

text \<open>
  Claim C3, as stated, asks for the re-query also when today's instant equals now. At
  06:30:00.000 exactly, with today's sunrise at that instant, the candidate stays today's
  sunrise; tomorrow's (a day later) is not taken.
\<close>

theorem roll_forward_counterexample:
  "getSunrise env_utc (Some (JNum 51.5074)) (Some (JNum 0.1278)) 23400000 = Instant 23400000
   \<and> nextSunrise env_utc (Some (JNum 51.5074)) (Some (JNum 0.1278)) 23400000 = Instant 23400000
   \<and> getSunrise env_utc (Some (JNum 51.5074)) (Some (JNum 0.1278)) (setDateNext env_utc 23400000)
       = Instant 109800000"
  by (simp add: nextSunrise_def env_utc_def midnight_def day_ms_def)

text \<open>
  Claim C3, amended. The candidate for sunrise (respectively sunset) that the planner
  compares is tomorrow's instant exactly when today's is an instant strictly before now;
  when today's equals now, lies after it, or is no instant at all, today's answer is kept.
\<close>

theorem roll_forward_strictly_before:
  assumes "property config ''latitude'' = Inr lat"
    and "property config ''longitude'' = Inr lon"
  shows "nextUpdate e config w =
           Inr (pick
                 (case getSunrise e lat lon (clock w) of
                    Invalid_Date \<Rightarrow> Invalid_Date
                  | Instant r \<Rightarrow>
                      if r < clock w then getSunrise e lat lon (setDateNext e (clock w))
                      else Instant r)
                 (case getSunset e lat lon (clock w) of
                    Invalid_Date \<Rightarrow> Invalid_Date
                  | Instant s \<Rightarrow>
                      if s < clock w then getSunset e lat lon (setDateNext e (clock w))
                      else Instant s)
                 (clock w))"
  by (simp add: nextUpdate_known [OF assms] nextSunrise_def nextSunset_def split: date.split)

text \<open>
  At the instant of today's sunrise both of today's instants are compared; at 19:00,
  after both, tomorrow's are.
\<close>

theorem roll_forward_strictly_before_witness:
  "nextUpdate env_utc london (started_at 23400000)
     = Inr (pick (Instant 23400000) (Instant 64800000) 23400000)
   \<and> nextUpdate env_utc london (started_at 68400000)
     = Inr (pick (Instant 109800000) (Instant 151200000) 68400000)"
  using
    roll_forward_strictly_before [OF london_latitude london_longitude,
      of env_utc "started_at 23400000"]
    roll_forward_strictly_before [OF london_latitude london_longitude,
      of env_utc "started_at 68400000"]
  by (simp add: env_utc_def started_at_def midnight_def day_ms_def)

text \<open>
  Claim C5. With \<open>sunrise\<close> and \<open>sunset\<close> the candidates after the roll-forward step: if
  sunrise was selected (\<open>sunrise < sunset\<close>) and now is past it, the planner returns the
  sunset with NoIR; if sunset was selected and now is past it, the planner returns the
  sunrise with Colour; otherwise the selection stands.
\<close>

theorem correction_pass:
  assumes "property config ''latitude'' = Inr lat"
    and "property config ''longitude'' = Inr lon"
    and "sunrise = nextSunrise e lat lon (clock w)"
    and "sunset = nextSunset e lat lon (clock w)"
  shows "nextUpdate e config w =
           Inr (if date_less sunrise sunset \<and> date_greater (Instant (clock w)) sunrise
                then \<lparr>fires = sunset, state = NoIR\<rparr>
                else if \<not> date_less sunrise sunset \<and> date_greater (Instant (clock w)) sunset
                then \<lparr>fires = sunrise, state = Colour\<rparr>
                else if date_less sunrise sunset
                then \<lparr>fires = sunrise, state = Colour\<rparr>
                else \<lparr>fires = sunset, state = NoIR\<rparr>)"
  using assms by (simp add: nextUpdate_known pick_def)

text \<open>A flip to sunset, a flip to sunrise, and a selection that stands.\<close>

theorem correction_pass_witness:
  "nextUpdate env_stuck london (started_at 150) = Inr \<lparr>fires = Instant 200, state = NoIR\<rparr>
   \<and> nextUpdate (env_stuck\<lparr>getSunrise := (\<lambda>lat lon t. Instant 300)\<rparr>) london (started_at 250)
       = Inr \<lparr>fires = Instant 300, state = Colour\<rparr>
   \<and> nextUpdate env_utc london (started_at 21600000)
       = Inr \<lparr>fires = Instant 23400000, state = Colour\<rparr>"
  using
    correction_pass [OF london_latitude london_longitude refl refl, of env_stuck "started_at 150"]
    correction_pass [OF london_latitude london_longitude refl refl,
      of "env_stuck\<lparr>getSunrise := (\<lambda>lat lon t. Instant 300)\<rparr>" "started_at 250"]
    correction_pass [OF london_latitude london_longitude refl refl,
      of env_utc "started_at 21600000"]
  by (simp add: env_stuck_def env_utc_def started_at_def nextSunrise_def nextSunset_def
      midnight_def day_ms_def)

text \<open>
  Claim C2. When both candidates, after the roll-forward step, are instants before now,
  the planner returns the mode opposite to the one first selected, and its \<open>fires\<close> is
  the instant the sunrise library gives for the other event on the following day.
\<close>

theorem both_candidates_past:
  assumes "property config ''latitude'' = Inr lat"
    and "property config ''longitude'' = Inr lon"
    and "nextSunrise e lat lon (clock w) = Instant r" and "r < clock w"
    and "nextSunset e lat lon (clock w) = Instant s" and "s < clock w"
  shows "nextUpdate e config w =
           Inr (if r < s
                then \<lparr>fires = getSunset e lat lon (setDateNext e (clock w)), state = NoIR\<rparr>
                else \<lparr>fires = getSunrise e lat lon (setDateNext e (clock w)), state = Colour\<rparr>)"
proof -
  have tomorrow_sunrise: "getSunrise e lat lon (setDateNext e (clock w)) = Instant r"
    using assms(3,4) by (auto simp add: nextSunrise_def split: if_splits)
  have tomorrow_sunset: "getSunset e lat lon (setDateNext e (clock w)) = Instant s"
    using assms(5,6) by (auto simp add: nextSunset_def split: if_splits)
  have "nextUpdate e config w = Inr (pick (Instant r) (Instant s) (clock w))"
    using assms(1,2,3,5) by (simp add: nextUpdate_known)
  also have "pick (Instant r) (Instant s) (clock w) =
      (if r < s then \<lparr>fires = Instant s, state = NoIR\<rparr>
       else \<lparr>fires = Instant r, state = Colour\<rparr>)"
    using assms(4,6) by (simp add: pick_def)
  finally show ?thesis
    by (simp add: tomorrow_sunrise tomorrow_sunset)
qed

theorem both_candidates_past_witness:
  "nextSunrise env_stuck (Some (JNum 51.5074)) (Some (JNum 0.1278)) (clock (started_at 1000))
     = Instant 100
   \<and> nextSunset env_stuck (Some (JNum 51.5074)) (Some (JNum 0.1278)) (clock (started_at 1000))
     = Instant 200
   \<and> 200 < clock (started_at 1000)
   \<and> nextUpdate env_stuck london (started_at 1000) = Inr \<lparr>fires = Instant 200, state = NoIR\<rparr>"
proof -
  have r: "nextSunrise env_stuck (Some (JNum 51.5074)) (Some (JNum 0.1278)) (clock (started_at 1000))
      = Instant 100"
    by (simp add: env_stuck_def env_utc_def started_at_def nextSunrise_def)
  have s: "nextSunset env_stuck (Some (JNum 51.5074)) (Some (JNum 0.1278)) (clock (started_at 1000))
      = Instant 200"
    by (simp add: env_stuck_def env_utc_def started_at_def nextSunset_def)
  have p: "(100::int) < clock (started_at 1000)" "(200::int) < clock (started_at 1000)"
    by (simp_all add: started_at_def)
  from r s p(2) both_candidates_past [OF london_latitude london_longitude r p(1) s p(2)]
  show ?thesis by (simp add: env_stuck_def)
qed

text \<open>The two candidates, by what the library answers for today.\<close>

lemma nextSunrise_cases:
  "nextSunrise e lat lon now =
     (case getSunrise e lat lon now of
        Invalid_Date \<Rightarrow> Invalid_Date
      | Instant r \<Rightarrow> if r < now then getSunrise e lat lon (setDateNext e now) else Instant r)"
  by (simp add: nextSunrise_def split: date.split)

lemma nextSunset_cases:
  "nextSunset e lat lon now =
     (case getSunset e lat lon now of
        Invalid_Date \<Rightarrow> Invalid_Date
      | Instant s \<Rightarrow> if s < now then getSunset e lat lon (setDateNext e now) else Instant s)"
  by (simp add: nextSunset_def split: date.split)

text \<open>
  Lines 50-65 against now: when the returned instant is after now, when it is now, and
  when it is at least not before now.
\<close>

lemma pick_after_now:
  "date_greater (fires (pick sunrise sunset now)) (Instant now) \<longleftrightarrow>
     sunset \<noteq> Invalid_Date
     \<and> (date_greater sunset (Instant now) \<or> date_greater sunrise (Instant now))
     \<and> sunrise \<noteq> Instant now \<and> sunset \<noteq> Instant now"
  by (cases sunrise; cases sunset) (auto simp add: pick_def Let_def split: if_splits)

lemma pick_at_now:
  "fires (pick sunrise sunset now) = Instant now \<longleftrightarrow>
     sunset \<noteq> Invalid_Date \<and> (sunrise = Instant now \<or> sunset = Instant now)"
  by (cases sunrise; cases sunset) (auto simp add: pick_def Let_def split: if_splits)

lemma pick_not_before_now:
  assumes "sunset = Instant s"
    and "now \<le> s \<or> (\<exists>r. sunrise = Instant r \<and> now \<le> r)"
  shows "\<exists>f. fires (pick sunrise sunset now) = Instant f \<and> now \<le> f"
  using assms by (cases sunrise) (auto simp add: pick_def Let_def split: if_splits)

text \<open>
  Claim C1, as stated, fails. Invoked at the very instant of today's sunrise the planner
  returns that instant, which is not after now; where the library has no instant to
  give (after sunset on the last day before polar night) it returns an invalid date; and
  where every instant the library gives is past, it returns a past instant.
\<close>

theorem nextUpdate_fires_counterexample:
  "clock (started_at 23400000) = 23400000
   \<and> nextUpdate env_utc london (started_at 23400000)
       = Inr \<lparr>fires = Instant 23400000, state = Colour\<rparr>
   \<and> nextUpdate env_polar london (started_at 68400000)
       = Inr \<lparr>fires = Invalid_Date, state = NoIR\<rparr>
   \<and> nextUpdate env_stuck london (started_at 1000)
       = Inr \<lparr>fires = Instant 200, state = NoIR\<rparr>"
  by (simp add: nextUpdate_known [OF london_latitude london_longitude] started_at_def
      nextSunrise_def nextSunset_def pick_def env_polar_def env_stuck_def env_utc_def
      midnight_def day_ms_def)

text \<open>
  Claim C1, amended. For a location whose coordinates can be read and every instant now,
  let the candidates be the library's sunrise and sunset for today, each replaced by the
  following day's when it is an instant strictly before now. The planner returns an
  \<open>Update\<close> whose \<open>fires\<close> is strictly after now exactly when the sunset candidate is an
  instant, at least one candidate is after now and neither candidate is now itself;
  \<open>fires\<close> is now itself exactly when the sunset candidate is an instant and one of the
  candidates is now (as when now is today's sunrise or sunset). In every other case
  \<open>fires\<close> is before now or an invalid date.
\<close>

theorem nextUpdate_fires_after_now:
  assumes "property config ''latitude'' = Inr lat"
    and "property config ''longitude'' = Inr lon"
    and "sunrise =
           (case getSunrise e lat lon (clock w) of
              Invalid_Date \<Rightarrow> Invalid_Date
            | Instant r \<Rightarrow>
                if r < clock w then getSunrise e lat lon (setDateNext e (clock w))
                else Instant r)"
    and "sunset =
           (case getSunset e lat lon (clock w) of
              Invalid_Date \<Rightarrow> Invalid_Date
            | Instant s \<Rightarrow>
                if s < clock w then getSunset e lat lon (setDateNext e (clock w))
                else Instant s)"
  shows "\<exists>u. nextUpdate e config w = Inr u
           \<and> (date_greater (fires u) (Instant (clock w)) \<longleftrightarrow>
                sunset \<noteq> Invalid_Date
                \<and> (date_greater sunset (Instant (clock w))
                    \<or> date_greater sunrise (Instant (clock w)))
                \<and> sunrise \<noteq> Instant (clock w) \<and> sunset \<noteq> Instant (clock w))
           \<and> (fires u = Instant (clock w) \<longleftrightarrow>
                sunset \<noteq> Invalid_Date
                \<and> (sunrise = Instant (clock w) \<or> sunset = Instant (clock w)))"
proof -
  have "nextUpdate e config w = Inr (pick sunrise sunset (clock w))"
    using assms by (simp add: nextUpdate_known nextSunrise_cases nextSunset_cases)
  then show ?thesis
    using pick_after_now [of sunrise sunset "clock w"] pick_at_now [of sunrise sunset "clock w"]
    by simp
qed

text \<open>
  London at 06:00, before sunrise; Los Angeles a second after sunset, where the sunset
  candidate is past and the correction pass turns to the sunrise; London at the instant
  of sunrise; and a library whose instants are all past.
\<close>

theorem nextUpdate_fires_after_now_witness:
  "(\<exists>u. nextUpdate env_utc london (started_at 21600000) = Inr u
        \<and> date_greater (fires u) (Instant 21600000) \<and> fires u \<noteq> Instant 21600000)
   \<and> (\<exists>u. nextUpdate env_la london (started_at 93601000) = Inr u
        \<and> date_greater (fires u) (Instant 93601000) \<and> fires u \<noteq> Instant 93601000)
   \<and> (\<exists>u. nextUpdate env_utc london (started_at 23400000) = Inr u
        \<and> \<not> date_greater (fires u) (Instant 23400000) \<and> fires u = Instant 23400000)
   \<and> (\<exists>u. nextUpdate env_stuck london (started_at 1000) = Inr u
        \<and> \<not> date_greater (fires u) (Instant 1000) \<and> fires u \<noteq> Instant 1000)"
  using
    nextUpdate_fires_after_now [OF london_latitude london_longitude refl refl,
      of env_utc "started_at 21600000"]
    nextUpdate_fires_after_now [OF london_latitude london_longitude refl refl,
      of env_la "started_at 93601000"]
    nextUpdate_fires_after_now [OF london_latitude london_longitude refl refl,
      of env_utc "started_at 23400000"]
    nextUpdate_fires_after_now [OF london_latitude london_longitude refl refl,
      of env_stuck "started_at 1000"]
  by (simp add: env_la_def env_stuck_def env_utc_def started_at_def midnight_def day_ms_def)

section \<open>Startup and test mode\<close>

text \<open>The startup sequence, given what the planner returns at that instant.\<close>

lemma setup_camera_result:
  assumes "nextUpdate e config w = Inr next"
  shows "\<exists>w1. setup_camera e config w = Inr (w1, next)
           \<and> trace w1
               = trace w
                 @ [New_I2C, New_DigitalOutput GPIO4, New_DigitalOutput GPIO17,
                    I2C_writeSync 0x70 0x0 0x1, Gpio_write GPIO17 LOW, Gpio_write GPIO4 LOW]
                 @ (if state next = Colour
                    then [Console_log Starting_up_with_NoIR, Console_log Switching,
                          I2C_writeSync 0x70 0x0 0x2, Gpio_write GPIO4 HIGH,
                          Console_log (Switched_to NoIR)]
                    else [Console_log Starting_up_with_colour, Console_log Switching,
                          I2C_writeSync 0x70 0x0 0x1, Gpio_write GPIO4 LOW,
                          Console_log (Switched_to Colour)])
           \<and> timers w1 = timers w \<and> clock w1 = clock w"
  using assms
  by (simp add: setup_camera_def Let_def nextUpdate_emit)
    (simp add: update_def emit_def)

text \<open>
  What \<open>nextLoop\<close> does: two log lines and one timer, for the delay
  \<^verbatim>\<open>fires - now + 1000\<close>, capturing \<open>config\<close> and the \<open>Update\<close>.
\<close>

lemma nextLoop_result:
  "trace (nextLoop config next w)
     = trace w @ [Console_log (Firing_update (state next) (fires next)),
                  Console_log (In_ms (num_minus (getTime (fires next)) (Some (clock w)))),
                  SetTimeout (num_plus (num_minus (getTime (fires next)) (Some (clock w))) (Some 1000))]
   \<and> timers (nextLoop config next w)
     = timers w @ [(clock w, num_plus (num_minus (getTime (fires next)) (Some (clock w))) (Some 1000),
                    config, next)]
   \<and> clock (nextLoop config next w) = clock w"
  by (simp add: nextLoop_def Let_def emit_def)

text \<open>
  Claim C6. At startup (no \<^verbatim>\<open>--test\<close> on the command line), with \<open>next\<close> what the
  planner returns for the loaded location at that instant, the startup sequence opens the
  bus and the pins, resets them, and applies the opposite of \<open>state next\<close>: for Colour
  it writes 2 to register 0 of the I2C device 0x70 and drives GPIO4 high (NoIR), for NoIR
  it writes 1 and drives GPIO4 low (Colour). That is its only mode change, and no timer is
  armed by then; only afterwards does \<open>main\<close> arm the timer for \<open>next\<close>, without a
  further write to the hardware.
\<close>

theorem startup_applies_opposite:
  assumes "loadConfig e = Inr config"
    and "''--test'' \<notin> set (argv e)"
    and "nextUpdate e config w = Inr next"
  shows "\<exists>w1. setup_camera e config w = Inr (w1, next)
           \<and> trace w1
               = trace w
                 @ [New_I2C, New_DigitalOutput GPIO4, New_DigitalOutput GPIO17,
                    I2C_writeSync 0x70 0x0 0x1, Gpio_write GPIO17 LOW, Gpio_write GPIO4 LOW]
                 @ (if state next = Colour
                    then [Console_log Starting_up_with_NoIR, Console_log Switching,
                          I2C_writeSync 0x70 0x0 0x2, Gpio_write GPIO4 HIGH,
                          Console_log (Switched_to NoIR)]
                    else [Console_log Starting_up_with_colour, Console_log Switching,
                          I2C_writeSync 0x70 0x0 0x1, Gpio_write GPIO4 LOW,
                          Console_log (Switched_to Colour)])
           \<and> applied (trace w1) = applied (trace w) @ [if state next = Colour then NoIR else Colour]
           \<and> armed (trace w1) = armed (trace w)
           \<and> timers w1 = timers w
           \<and> main e w = Inr (nextLoop config next w1)
           \<and> trace (nextLoop config next w1)
               = trace w1
                 @ [Console_log (Firing_update (state next) (fires next)),
                    Console_log (In_ms (num_minus (getTime (fires next)) (Some (clock w)))),
                    SetTimeout
                      (num_plus (num_minus (getTime (fires next)) (Some (clock w))) (Some 1000))]
           \<and> applied (trace (nextLoop config next w1)) = applied (trace w1)
           \<and> armed (trace (nextLoop config next w1))
               = armed (trace w1)
                 @ [num_plus (num_minus (getTime (fires next)) (Some (clock w))) (Some 1000)]
           \<and> timers (nextLoop config next w1)
               = timers w1
                 @ [(clock w,
                     num_plus (num_minus (getTime (fires next)) (Some (clock w))) (Some 1000),
                     config, next)]"
proof -
  from setup_camera_result [OF assms(3)] obtain w1 where
    w1: "setup_camera e config w = Inr (w1, next)"
      "trace w1
         = trace w
           @ [New_I2C, New_DigitalOutput GPIO4, New_DigitalOutput GPIO17,
              I2C_writeSync 0x70 0x0 0x1, Gpio_write GPIO17 LOW, Gpio_write GPIO4 LOW]
           @ (if state next = Colour
              then [Console_log Starting_up_with_NoIR, Console_log Switching,
                    I2C_writeSync 0x70 0x0 0x2, Gpio_write GPIO4 HIGH,
                    Console_log (Switched_to NoIR)]
              else [Console_log Starting_up_with_colour, Console_log Switching,
                    I2C_writeSync 0x70 0x0 0x1, Gpio_write GPIO4 LOW,
                    Console_log (Switched_to Colour)])"
      "timers w1 = timers w" "clock w1 = clock w"
    by blast
  have observed: "applied (trace w1) = applied (trace w) @ [if state next = Colour then NoIR else Colour]"
    "armed (trace w1) = armed (trace w)"
    by (simp_all add: w1(2) applied_append armed_append)
  have "main e w = Inr (nextLoop config next w1)"
    using assms(1,2) w1(1) by (simp add: main_def)
  moreover have "trace (nextLoop config next w1)
      = trace w1
        @ [Console_log (Firing_update (state next) (fires next)),
           Console_log (In_ms (num_minus (getTime (fires next)) (Some (clock w)))),
           SetTimeout (num_plus (num_minus (getTime (fires next)) (Some (clock w))) (Some 1000))]"
    by (simp add: nextLoop_result w1(4))
  moreover have "timers (nextLoop config next w1)
      = timers w1
        @ [(clock w, num_plus (num_minus (getTime (fires next)) (Some (clock w))) (Some 1000),
            config, next)]"
    by (simp add: nextLoop_result w1(4))
  ultimately show ?thesis
    using w1(1,2,3) observed by (simp add: applied_append armed_append)
qed

text \<open>London at 06:00: sunrise is next, so NoIR is applied and the timer waits for 06:30:01.\<close>

theorem startup_applies_opposite_witness:
  "\<exists>w1. setup_camera env_utc london (started_at 21600000)
            = Inr (w1, \<lparr>fires = Instant 23400000, state = Colour\<rparr>)
      \<and> trace w1
          = [New_I2C, New_DigitalOutput GPIO4, New_DigitalOutput GPIO17,
             I2C_writeSync 0x70 0x0 0x1, Gpio_write GPIO17 LOW, Gpio_write GPIO4 LOW,
             Console_log Starting_up_with_NoIR, Console_log Switching,
             I2C_writeSync 0x70 0x0 0x2, Gpio_write GPIO4 HIGH, Console_log (Switched_to NoIR)]
      \<and> timers w1 = []
      \<and> main env_utc (started_at 21600000)
          = Inr (nextLoop london \<lparr>fires = Instant 23400000, state = Colour\<rparr> w1)
      \<and> timers (nextLoop london \<lparr>fires = Instant 23400000, state = Colour\<rparr> w1)
          = [(21600000, Some 1801000, london, \<lparr>fires = Instant 23400000, state = Colour\<rparr>)]"
proof -
  have no_test: "''--test'' \<notin> set (argv env_utc)"
    by (simp add: env_utc_def)
  from startup_applies_opposite [OF loadConfig_env_utc no_test env_utc_0600]
  show ?thesis by (auto simp add: started_at_def)
qed




section \<open>The scheduler loop\<close>

text \<open>
  The grace second: a timer armed for an instant \<open>f\<close> asks for \<open>f - now + 1000\<close>
  milliseconds, so that, unless the request exceeds the timer's range, it fires after \<open>f\<close>.
\<close>

lemma timeout_ms_positive: "1 \<le> timeout_ms delay"
  by (simp add: timeout_ms_def split: option.split)

lemma timeout_ms_grace:
  assumes "f - a + 1000 \<le> 2147483647"
  shows "f < a + timeout_ms (Some (f - a + 1000)) + int late"
  using assms by (simp add: timeout_ms_def)

text \<open>The effects of one mode change.\<close>

lemma update_trace:
  "trace (update m w)
     = trace w
       @ (if m = Colour
          then [Console_log Switching, I2C_writeSync 0x70 0x0 0x1, Gpio_write GPIO4 LOW,
                Console_log (Switched_to Colour)]
          else [Console_log Switching, I2C_writeSync 0x70 0x0 0x2, Gpio_write GPIO4 HIGH,
                Console_log (Switched_to m)])"
  by (simp add: update_def emit_def)

text \<open>
  Claim C7, as stated, fails where the sunrise library stops answering, and where its
  answers are all past. On the last day before polar night, started at 06:00: the timer
  fires after sunrise (06:30:01) and is re-armed for the sunset at 18:00; it fires after
  sunset (18:00:01) and is re-armed for an invalid date, with a delay that is not a
  number; fired again a millisecond later it is re-armed for the same invalid date. With
  the library that answers 100 and 200 for every day, the timer for 200 fires at 1200 and
  is re-armed for 200. The new deadline is not greater than the old.
\<close>

theorem timer_progress_counterexample:
  "map_sum id timers (run env_polar [0] (started_at 21600000))
     = Inr [(23401000, Some 41400000, london, \<lparr>fires = Instant 64800000, state = NoIR\<rparr>)]
   \<and> map_sum id timers (run env_polar [0, 0] (started_at 21600000))
     = Inr [(64801000, None, london, \<lparr>fires = Invalid_Date, state = NoIR\<rparr>)]
   \<and> map_sum id timers (run env_polar [0, 0, 0] (started_at 21600000))
     = Inr [(64801001, None, london, \<lparr>fires = Invalid_Date, state = NoIR\<rparr>)]
   \<and> map_sum id timers (run env_stuck [0] (started_at 50))
     = Inr [(1100, Some 100, london, \<lparr>fires = Instant 200, state = NoIR\<rparr>)]
   \<and> map_sum id timers (run env_stuck [0, 0] (started_at 50))
     = Inr [(1200, Some 0, london, \<lparr>fires = Instant 200, state = NoIR\<rparr>)]"
  by (simp add: run_def main_def loadConfig_def try_catch_def setup_camera_def Let_def
      fireTimer_def timeoutCallback_def nextLoop_def update_def timeout_ms_def
      nextUpdate_known [OF london_latitude london_longitude]
      nextSunrise_def nextSunset_def pick_def env_polar_def env_stuck_def env_utc_def
      midnight_def day_ms_def started_at_def emit_def)

text \<open>
  Claim C7, amended. Let the timer be armed by \<open>nextLoop\<close> for \<open>t\<close>, and let it fire at
  \<open>now\<close>, the instant it is due or later; \<open>now\<close> is after \<open>fires t\<close> whenever the
  requested delay is within the timer's range, thanks to the grace second, so also when
  \<open>fires t\<close> was the very instant of arming. Let the candidates at \<open>now\<close> be the
  library's sunrise and sunset for today, each replaced by the following day's when it is
  an instant strictly before \<open>now\<close>. If the sunset candidate is an instant and at least
  one candidate is an instant at or after \<open>now\<close>, the loop applies \<open>state t\<close> to the
  hardware and re-arms itself for the \<open>t'\<close> the planner returns at \<open>now\<close>, whose
  \<open>fires\<close> is at or after \<open>now\<close> and so strictly greater than \<open>fires t\<close>.
\<close>

theorem timer_progress:
  assumes "property config ''latitude'' = Inr lat"
    and "property config ''longitude'' = Inr lon"
    and "timers w0 = []"
    and "fires t = Instant f"
    and "now = clock w0 + timeout_ms (Some (f - clock w0 + 1000)) + int late"
    and "f - clock w0 + 1000 \<le> 2147483647 \<or> f < now"
    and "sunrise =
           (case getSunrise e lat lon now of
              Invalid_Date \<Rightarrow> Invalid_Date
            | Instant r \<Rightarrow> if r < now then getSunrise e lat lon (setDateNext e now) else Instant r)"
    and "sunset =
           (case getSunset e lat lon now of
              Invalid_Date \<Rightarrow> Invalid_Date
            | Instant s \<Rightarrow> if s < now then getSunset e lat lon (setDateNext e now) else Instant s)"
    and "sunset = Instant s"
    and "now \<le> s \<or> (\<exists>r. sunrise = Instant r \<and> now \<le> r)"
  shows "\<exists>w' t' f'. fireTimer e late (nextLoop config t w0) = Inr w'
           \<and> clock w' = now \<and> f < now
           \<and> trace w'
               = trace w0
                 @ [Console_log (Firing_update (state t) (Instant f)),
                    Console_log (In_ms (Some (f - clock w0))),
                    SetTimeout (Some (f - clock w0 + 1000))]
                 @ (if state t = Colour
                    then [Console_log Switching, I2C_writeSync 0x70 0x0 0x1,
                          Gpio_write GPIO4 LOW, Console_log (Switched_to Colour)]
                    else [Console_log Switching, I2C_writeSync 0x70 0x0 0x2,
                          Gpio_write GPIO4 HIGH, Console_log (Switched_to NoIR)])
                 @ [Console_log (Firing_update (state t') (Instant f')),
                    Console_log (In_ms (Some (f' - now))),
                    SetTimeout (Some (f' - now + 1000))]
           \<and> timers w' = [(now, Some (f' - now + 1000), config, t')]
           \<and> nextUpdate e config w' = Inr t'
           \<and> fires t' = Instant f' \<and> now \<le> f' \<and> f < f'"
proof -
  let ?armed = "nextLoop config t w0"
  let ?woken = "?armed\<lparr>clock := now, timers := []\<rparr>"
  let ?switched = "update (state t) ?woken"
  define t' where "t' = pick sunrise sunset now"
  have after: "f < now"
    using assms(6) timeout_ms_grace [of f "clock w0" late] by (auto simp add: assms(5))
  have pending: "timers ?armed = [(clock w0, Some (f - clock w0 + 1000), config, t)]"
    and armed_clock: "clock ?armed = clock w0"
    and armed_trace: "trace ?armed
      = trace w0 @ [Console_log (Firing_update (state t) (Instant f)),
                    Console_log (In_ms (Some (f - clock w0))),
                    SetTimeout (Some (f - clock w0 + 1000))]"
    by (simp_all add: nextLoop_result assms(3,4))
  have due: "max (clock ?armed) (clock w0 + timeout_ms (Some (f - clock w0 + 1000))) + int late = now"
    using timeout_ms_positive [of "Some (f - clock w0 + 1000)"]
    by (simp add: armed_clock assms(5))
  have fired: "fireTimer e late ?armed = timeoutCallback e config t ?woken"
    by (simp add: fireTimer_def pending due)
  have planned: "nextUpdate e config ?switched = Inr t'"
    by (simp add: nextUpdate_known [OF assms(1,2)] update_clock nextSunrise_cases
        nextSunset_cases assms(7,8) [symmetric] t'_def)
  from pick_not_before_now [OF assms(9,10)] obtain f' where
    f': "fires t' = Instant f'" "now \<le> f'"
    unfolding t'_def by blast
  let ?rearmed = "nextLoop config t' ?switched"
  have result: "fireTimer e late ?armed = Inr ?rearmed"
    by (simp add: fired timeoutCallback_def Let_def planned)
  have "clock ?rearmed = now"
    by (simp add: nextLoop_result update_clock)
  moreover have "trace ?rearmed
      = trace w0
        @ [Console_log (Firing_update (state t) (Instant f)),
           Console_log (In_ms (Some (f - clock w0))),
           SetTimeout (Some (f - clock w0 + 1000))]
        @ (if state t = Colour
           then [Console_log Switching, I2C_writeSync 0x70 0x0 0x1,
                 Gpio_write GPIO4 LOW, Console_log (Switched_to Colour)]
           else [Console_log Switching, I2C_writeSync 0x70 0x0 0x2,
                 Gpio_write GPIO4 HIGH, Console_log (Switched_to NoIR)])
        @ [Console_log (Firing_update (state t') (Instant f')),
           Console_log (In_ms (Some (f' - now))),
           SetTimeout (Some (f' - now + 1000))]"
    by (cases "state t") (simp_all add: nextLoop_result update_trace update_clock assms(4) f'(1))
  moreover have "timers ?rearmed = [(now, Some (f' - now + 1000), config, t')]"
    by (simp add: nextLoop_result update_timers update_clock f'(1))
  moreover have "nextUpdate e config ?rearmed = Inr t'"
    by (simp add: nextUpdate_known [OF assms(1,2)] nextLoop_result update_clock nextSunrise_cases
        nextSunset_cases assms(7,8) [symmetric] t'_def)
  moreover have "f < f'"
    using after f'(2) by simp
  ultimately show ?thesis
    using result after f' by blast
qed

text \<open>
  London: the timer armed at 06:00 for the sunrise fires at 06:30:01 and is re-armed for
  the sunset. Los Angeles: the timer armed at noon for the sunset fires a second after it,
  when the sunset candidate is past, and is re-armed for the next sunrise.
\<close>

theorem timer_progress_witness:
  "(\<exists>w' t' f'.
      fireTimer env_utc 0
        (nextLoop london \<lparr>fires = Instant 23400000, state = Colour\<rparr> (started_at 21600000))
        = Inr w'
      \<and> clock w' = 23401000
      \<and> timers w' = [(23401000, Some (f' - 23401000 + 1000), london, t')]
      \<and> fires t' = Instant f' \<and> 23400000 < f')
   \<and> (\<exists>w' t' f'.
      fireTimer env_la 0
        (nextLoop london \<lparr>fires = Instant 93600000, state = NoIR\<rparr> (started_at 68400000))
        = Inr w'
      \<and> clock w' = 93601000
      \<and> timers w' = [(93601000, Some (f' - 93601000 + 1000), london, t')]
      \<and> fires t' = Instant f' \<and> 93600000 < f')"
proof -
  have idle: "timers (started_at 21600000) = []" "timers (started_at 68400000) = []"
    by (simp_all add: started_at_def)
  have london_due: "fires \<lparr>fires = Instant 23400000, state = Colour\<rparr> = Instant 23400000"
    "(23401000::int) = clock (started_at 21600000)
       + timeout_ms (Some (23400000 - clock (started_at 21600000) + 1000)) + int 0"
    "23400000 - clock (started_at 21600000) + 1000 \<le> 2147483647 \<or> (23400000::int) < 23401000"
    by (simp_all add: started_at_def timeout_ms_def)
  have london_sunset:
    "(case getSunset env_utc (Some (JNum 51.5074)) (Some (JNum 0.1278)) 23401000 of
        Invalid_Date \<Rightarrow> Invalid_Date
      | Instant s \<Rightarrow>
          if s < 23401000
          then getSunset env_utc (Some (JNum 51.5074)) (Some (JNum 0.1278))
                 (setDateNext env_utc 23401000)
          else Instant s) = Instant 64800000"
    by (simp add: env_utc_def midnight_def day_ms_def)
  have london_ahead: "(23401000::int) \<le> 64800000
      \<or> (\<exists>r. (case getSunrise env_utc (Some (JNum 51.5074)) (Some (JNum 0.1278)) 23401000 of
                 Invalid_Date \<Rightarrow> Invalid_Date
               | Instant r \<Rightarrow>
                   if r < 23401000
                   then getSunrise env_utc (Some (JNum 51.5074)) (Some (JNum 0.1278))
                          (setDateNext env_utc 23401000)
                   else Instant r) = Instant r \<and> 23401000 \<le> r)"
    by simp
  have la_due: "fires \<lparr>fires = Instant 93600000, state = NoIR\<rparr> = Instant 93600000"
    "(93601000::int) = clock (started_at 68400000)
       + timeout_ms (Some (93600000 - clock (started_at 68400000) + 1000)) + int 0"
    "93600000 - clock (started_at 68400000) + 1000 \<le> 2147483647 \<or> (93600000::int) < 93601000"
    by (simp_all add: started_at_def timeout_ms_def)
  have la_sunset:
    "(case getSunset env_la (Some (JNum 51.5074)) (Some (JNum 0.1278)) 93601000 of
        Invalid_Date \<Rightarrow> Invalid_Date
      | Instant s \<Rightarrow>
          if s < 93601000
          then getSunset env_la (Some (JNum 51.5074)) (Some (JNum 0.1278))
                 (setDateNext env_la 93601000)
          else Instant s) = Instant 93600000"
    by (simp add: env_la_def env_utc_def midnight_def day_ms_def)
  have la_ahead: "(93601000::int) \<le> 93600000
      \<or> (\<exists>r. (case getSunrise env_la (Some (JNum 51.5074)) (Some (JNum 0.1278)) 93601000 of
                 Invalid_Date \<Rightarrow> Invalid_Date
               | Instant r \<Rightarrow>
                   if r < 93601000
                   then getSunrise env_la (Some (JNum 51.5074)) (Some (JNum 0.1278))
                          (setDateNext env_la 93601000)
                   else Instant r) = Instant r \<and> 93601000 \<le> r)"
    by (simp add: env_la_def env_utc_def midnight_def day_ms_def)
  from
    timer_progress [OF london_latitude london_longitude idle(1) london_due refl refl
      london_sunset london_ahead]
    timer_progress [OF london_latitude london_longitude idle(2) la_due refl refl
      la_sunset la_ahead]
  show ?thesis by blast
qed

end
